theory Spec2Isabelle
  imports Main "HOL-Library.AList" "HOL-Library.Char_ord" "HOL-Library.List_Lexorder"
begin

section \<open>Errors and callables\<close>

text \<open>
  The scripts define no exception class and contain no \<^verbatim>\<open>try\<close>/\<^verbatim>\<open>except\<close>.
  The only exceptions that can occur are raised inside the libraries they call; an
  exception is a value \<open>Inl e\<close> of the result.
\<close>

datatype error = ValidationError string | TypeError string | LibraryError string

text \<open>
  A Python dictionary with string keys, in iteration order. A callable without
  arguments that may have an effect on the world \<open>'w\<close> and may raise.
\<close>

type_synonym 'v dict = "(string \<times> 'v) list"

type_synonym ('w, 'a) callable = "'w \<Rightarrow> (error + 'a) \<times> 'w"

section \<open>posts/kedro-index-partitioned-dataset.py\<close>

subsection \<open>filter\_datasets\<close>

text \<open>
  \<^verbatim>\<open>
  def filter_datasets(loaded_partitioned_dataset: Dict[str, Any], filter: str) -> Dict:
      for key, partition_load_func in loaded_partitioned_dataset.items():
          if key == filter:
              return partition_load_func()

      return {}
  \<close>
  The mapping is the list of its items in iteration order. The call
  \<^verbatim>\<open>partition_load_func()\<close> runs the callable in the current world; what it returns
  or raises is what \<^verbatim>\<open>filter_datasets\<close> returns or raises.
\<close>

fun filter_datasets ::
  "(string \<times> ('w, 'v dict) callable) list \<Rightarrow> string \<Rightarrow> ('w, 'v dict) callable" where
  "filter_datasets [] flt w = (Inr [], w)"
| "filter_datasets ((key, partition_load_func) # items) flt w =
     (if key = flt then partition_load_func w else filter_datasets items flt w)"

subsection \<open>The partitioned dataset of the script\<close>

text \<open>
  Modelled from the spec: the library's partitioned dataset, which is not code of the
  repository, "a library-provided abstraction that stores/loads many small named data
  files under one logical path". The directory is the dictionary of its files.
  \<^verbatim>\<open>save\<close> writes the file of every key of its argument (replacing a file of the
  same name). \<^verbatim>\<open>load\<close> lists the partitions sorted by path and returns the
  dictionary from partition names to load functions, each of which reads its file and
  changes nothing; with no partition at all it raises.
\<close>

type_synonym payload = "string dict"

type_synonym directory = "payload dict"

definition save :: "payload dict \<Rightarrow> directory \<Rightarrow> directory" where
  "save data dir = fold (\<lambda>(partition, content). AList.update partition content) data dir"

definition read_partition :: "payload \<Rightarrow> ('w, payload) callable" where
  "read_partition content w = (Inr content, w)"

definition load :: "directory \<Rightarrow> error + (string \<times> ('w, payload) callable) list" where
  "load dir =
     (if dir = [] then Inl (LibraryError ''DatasetError'')
      else Inr (map (\<lambda>(partition, content). (partition, read_partition content))
                  (sort_key fst dir)))"

definition temporary_directory :: directory where
  "temporary_directory =
     save [(''julien'', [(''is'', ''He is my boss...Oh, wait, no it's Aymeric now!'')])]
       (save [(''flavien'', [(''is'', ''I am the boss...of JIRA!'')])]
         (save [(''florian'', [(''is'', ''He is the boss!'')])] []))"

definition loaded_partitioned_dataset :: "error + (string \<times> ('w, payload) callable) list" where
  "loaded_partitioned_dataset = load temporary_directory"

subsection \<open>The main loop\<close>

text \<open>
  \<^verbatim>\<open>str.lower\<close> and the test for an uppercase letter, on ASCII letters (the names
  of the script are ASCII).
\<close>

definition is_upper :: "char \<Rightarrow> bool" where
  "is_upper c = ((65::nat) \<le> of_char c \<and> of_char c \<le> (90::nat))"

definition lower_char :: "char \<Rightarrow> char" where
  "lower_char c = (if is_upper c then char_of (of_char c + (32::nat)) else c)"

definition lower :: "string \<Rightarrow> string" where
  "lower s = map lower_char s"

text \<open>\<^verbatim>\<open>d.get(k)\<close>: the value, or \<^verbatim>\<open>None\<close> for a missing key.\<close>

definition get :: "'v dict \<Rightarrow> string \<Rightarrow> 'v option" where
  "get d k = map_of d k"

text \<open>
  \<^verbatim>\<open>print(f"Who is {first_name}?", value)\<close>: the two arguments separated by a
  space, \<^verbatim>\<open>None\<close> printed as the word None.
\<close>

definition print_line :: "string \<Rightarrow> string option \<Rightarrow> string" where
  "print_line first_name v =
     ''Who is '' @ first_name @ ''?'' @ '' '' @ (case v of None \<Rightarrow> ''None'' | Some s \<Rightarrow> s)"

text \<open>
  \<^verbatim>\<open>
  for first_name in ["Florian", "Julien", "Flavien"]:
      print(f"Who is {first_name}?",
            filter_datasets(loaded_partitioned_dataset=loaded_partitioned_dataset,
                            filter=first_name.lower()).get("is"))
  \<close>
  The state is the world of the load functions and the lines printed so far. An
  exception leaves the loop at once.
\<close>

fun main_loop ::
  "(string \<times> ('w, payload) callable) list \<Rightarrow> string list \<Rightarrow> 'w \<times> string list
     \<Rightarrow> (error + unit) \<times> ('w \<times> string list)" where
  "main_loop ds [] (w, out) = (Inr (), (w, out))"
| "main_loop ds (first_name # names) (w, out) =
     (case filter_datasets ds (lower first_name) w of
        (Inl e, w') \<Rightarrow> (Inl e, (w', out))
      | (Inr d, w') \<Rightarrow>
          main_loop ds names (w', out @ [print_line first_name (get d ''is'')]))"

text \<open>
  The script from \<^verbatim>\<open>partitioned_dataset.load()\<close> on, with the library's
  \<^verbatim>\<open>load\<close> as a parameter: an exception of \<^verbatim>\<open>load\<close> ends the script before
  the loop. The script never reads its argument list \<open>argv\<close>.
\<close>

definition kedro_script ::
  "(directory \<Rightarrow> error + (string \<times> ('w, payload) callable) list) \<Rightarrow> string list \<Rightarrow> 'w
     \<Rightarrow> (error + unit) \<times> ('w \<times> string list)" where
  "kedro_script load_fn argv w =
     (case load_fn temporary_directory of
        Inl e \<Rightarrow> (Inl e, (w, []))
      | Inr loaded \<Rightarrow> main_loop loaded [''Florian'', ''Julien'', ''Flavien''] (w, []))"

text \<open>The script as a whole, with the library's \<^verbatim>\<open>load\<close> as modelled above.\<close>

definition kedro_main :: "string list \<Rightarrow> 'w \<Rightarrow> (error + unit) \<times> ('w \<times> string list)" where
  "kedro_main argv w = kedro_script load argv w"

subsection \<open>Recording which load functions are called\<close>

text \<open>
  To observe the calls that \<^verbatim>\<open>filter_datasets\<close> makes, every load function of
  a mapping is wrapped so that, when called, it appends the position of its item to a
  list of calls and then does what it did before.
\<close>

fun traced :: "nat \<Rightarrow> (string \<times> ('w, 'a) callable) list \<Rightarrow> (string \<times> (nat list \<times> 'w, 'a) callable) list" where
  "traced i [] = []"
| "traced i ((key, f) # items) =
     (key, \<lambda>(calls, w). case f w of (r, w') \<Rightarrow> (r, (calls @ [i], w'))) # traced (Suc i) items"

section \<open>live\_reload.py\<close>

text \<open>
  The launcher only configures the library's server. The server is the dictionary of
  its watch tasks (a path pattern mapped to the function to run and the delay);
  \<^verbatim>\<open>shell(cmd)\<close> is the function that runs a shell command.
\<close>

datatype command = shell string

record Server =
  tasks :: "(command \<times> nat) dict"

definition Server_init :: Server where
  "Server_init = \<lparr>tasks = []\<rparr>"

definition watch :: "string \<Rightarrow> command \<Rightarrow> nat \<Rightarrow> Server \<Rightarrow> Server" where
  "watch filepath func delay server =
     server\<lparr>tasks := AList.update filepath (func, delay) (tasks server)\<rparr>"

text \<open>
  \<^verbatim>\<open>server.serve(root=...)\<close> is the library's: it is a parameter of the model.
  Its value is \<open>None\<close> when the call does not return, \<open>Some (Inl e)\<close> when it raises
  and \<open>Some (Inr ())\<close> when it returns.
\<close>

type_synonym serve_fn = "Server \<Rightarrow> string \<Rightarrow> (error + unit) option"

text \<open>
  \<^verbatim>\<open>
  server = Server()
  server.watch("*.md", shell("ablog build"), delay=1)
  server.watch("posts/*.md", shell("ablog build"), delay=1)
  server.watch("*.py", shell("ablog build"), delay=1)
  server.watch("_static/*", shell("ablog build"), delay=1)
  server.watch("_templates/*", shell("ablog build"), delay=1)
  server.serve(root="docs/")
  \<close>
\<close>

definition configured_server :: Server where
  "configured_server =
     watch ''_templates/*'' (shell ''ablog build'') 1
       (watch ''_static/*'' (shell ''ablog build'') 1
         (watch ''*.py'' (shell ''ablog build'') 1
           (watch ''posts/*.md'' (shell ''ablog build'') 1
             (watch ''*.md'' (shell ''ablog build'') 1 Server_init))))"

definition live_reload_main :: "serve_fn \<Rightarrow> string list \<Rightarrow> (error + unit) option" where
  "live_reload_main serve argv = serve configured_server ''docs/''"

text \<open>
  Modelled from the spec: the library's live-reload server, "a local development server
  that rebuilds and re-serves documentation output whenever watched source files
  change": a call that keeps serving and does not return.
\<close>

definition blocking_serve :: serve_fn where
  "blocking_serve server root = None"

section \<open>posts/pydantic-and-nested-relationships.py\<close>

subsection \<open>The declared schema\<close>

datatype coltype = Integer | Text

record Column_decl =
  col_type :: coltype
  foreign_key :: "string option"
  primary_key :: bool
  nullable :: bool

text \<open>
  \<^verbatim>\<open>Column(type, [ForeignKey(target)], primary_key=..., nullable=...)\<close>. When
  \<^verbatim>\<open>nullable\<close> is not given, the library makes a column nullable unless it is a
  primary key; \<^verbatim>\<open>primary_key\<close> defaults to false.
\<close>

definition Column :: "coltype \<Rightarrow> string option \<Rightarrow> bool \<Rightarrow> bool option \<Rightarrow> Column_decl" where
  "Column ty fk pk nullable_arg =
     \<lparr>col_type = ty, foreign_key = fk, primary_key = pk,
      nullable = (case nullable_arg of None \<Rightarrow> \<not> pk | Some b \<Rightarrow> b)\<rparr>"

record relationship_decl =
  argument :: string
  back_populates :: string

definition relationship :: "string \<Rightarrow> string \<Rightarrow> relationship_decl" where
  "relationship arg bp = \<lparr>argument = arg, back_populates = bp\<rparr>"

record mapped_class =
  class_name :: string
  tablename :: string
  columns :: "Column_decl dict"
  relationships :: "relationship_decl dict"

definition User_class :: mapped_class where
  "User_class =
     \<lparr>class_name = ''User'', tablename = ''user'',
      columns = [(''id'', Column Integer None True None),
                 (''name'', Column Text None False (Some False))],
      relationships = [(''comments'', relationship ''Comment'' ''user'')]\<rparr>"

definition Comment_class :: mapped_class where
  "Comment_class =
     \<lparr>class_name = ''Comment'', tablename = ''comment'',
      columns = [(''id'', Column Integer None True None),
                 (''comment'', Column Text None False (Some False)),
                 (''user_id'', Column Integer (Some ''user.id'') False None)],
      relationships = [(''user'', relationship ''User'' ''comments'')]\<rparr>"

text \<open>\<^verbatim>\<open>Base.metadata\<close>: the classes declared on \<^verbatim>\<open>Base\<close>, in order.\<close>

definition Base_metadata :: "mapped_class list" where
  "Base_metadata = [User_class, Comment_class]"

subsection \<open>Objects, database and session\<close>

text \<open>
  An object of a mapped class has no \<^verbatim>\<open>id\<close> before it is flushed. A user object
  holds its comments (the relationship \<^verbatim>\<open>comments\<close>).
\<close>

record Comment =
  Comment_id :: "int option"
  Comment_comment :: string
  Comment_user_id :: "int option"

record User =
  User_id :: "int option"
  User_name :: string
  User_comments :: "Comment list"

text \<open>\<^verbatim>\<open>User(name=...)\<close>.\<close>

definition new_User :: "string \<Rightarrow> User" where
  "new_User name = \<lparr>User_id = None, User_name = name, User_comments = []\<rparr>"

text \<open>
  \<^verbatim>\<open>Comment(comment=..., user=user)\<close>: through \<^verbatim>\<open>back_populates\<close> the new
  comment is appended to \<^verbatim>\<open>user.comments\<close>; the result is the user so changed.
\<close>

definition new_Comment :: "string \<Rightarrow> User \<Rightarrow> User" where
  "new_Comment text user =
     user\<lparr>User_comments := User_comments user @
       [\<lparr>Comment_id = None, Comment_comment = text, Comment_user_id = None\<rparr>]\<rparr>"

text \<open>
  Modelled from the spec: the library's object-relational mapper and its "in-process
  database connection", which are not code of the repository. The database is the rows
  of the "two-table relational schema (a parent entity with a name, and a dependent
  entity holding text and a reference back to its parent)"; the session holds the
  objects added to it, and the commit writes them, each comment with "a reference back
  to its parent".
\<close>

record database =
  user_table :: "(int \<times> string) list"
  comment_table :: "(int \<times> string \<times> int option) list"

text \<open>\<^verbatim>\<open>Base.metadata.create_all(engine)\<close> on the fresh database: two empty tables.\<close>

definition create_all :: database where
  "create_all = \<lparr>user_table = [], comment_table = []\<rparr>"

record Session =
  engine :: database
  new_objects :: "User list"

definition Session_init :: "database \<Rightarrow> Session" where
  "Session_init db = \<lparr>engine = db, new_objects = []\<rparr>"

definition session_add :: "User \<Rightarrow> Session \<Rightarrow> Session" where
  "session_add user session = session\<lparr>new_objects := new_objects session @ [user]\<rparr>"

text \<open>An integer primary key left out of an insert: one more than the largest one.\<close>

definition next_rowid :: "int list \<Rightarrow> int" where
  "next_rowid ids = fold max ids 0 + 1"

text \<open>
  The flush inserts the row of a new user, then the rows of its comments, each with
  the user's key in \<^verbatim>\<open>user_id\<close>, and sets the keys on the objects.
\<close>

fun insert_comments :: "int \<Rightarrow> Comment list \<Rightarrow> database \<Rightarrow> Comment list \<times> database" where
  "insert_comments uid [] db = ([], db)"
| "insert_comments uid (c # cs) db =
     (let cid = next_rowid (map fst (comment_table db));
          db' = db\<lparr>comment_table := comment_table db @ [(cid, Comment_comment c, Some uid)]\<rparr>;
          (cs', db'') = insert_comments uid cs db'
      in (c\<lparr>Comment_id := Some cid, Comment_user_id := Some uid\<rparr> # cs', db''))"

definition insert_user :: "User \<Rightarrow> database \<Rightarrow> User \<times> database" where
  "insert_user user db =
     (let uid = next_rowid (map fst (user_table db));
          db' = db\<lparr>user_table := user_table db @ [(uid, User_name user)]\<rparr>;
          (cs, db'') = insert_comments uid (User_comments user) db'
      in (user\<lparr>User_id := Some uid, User_comments := cs\<rparr>, db''))"

fun flush :: "User list \<Rightarrow> database \<Rightarrow> User list \<times> database" where
  "flush [] db = ([], db)"
| "flush (u # us) db =
     (let (u', db') = insert_user u db; (us', db'') = flush us db' in (u' # us', db''))"

text \<open>\<^verbatim>\<open>session.commit()\<close>: the objects as they are after the flush, and the session.\<close>

definition session_commit :: "Session \<Rightarrow> User list \<times> Session" where
  "session_commit session =
     (let (persisted, db) = flush (new_objects session) (engine session)
      in (persisted, \<lparr>engine = db, new_objects = []\<rparr>))"

subsection \<open>Serializers\<close>

datatype json = JInt int | JStr string | JList "json list" | JDict "json dict"

record CommentSerializer =
  cs_id :: int
  cs_comment :: string
  cs_user_id :: int

record CommentToStringSerializer =
  cts_comment :: string

record UserSerializer =
  us_id :: int
  us_name :: string
  us_comments :: "CommentSerializer list"

record UserWithoutIDSerializer =
  uw_name :: string
  uw_comments :: "CommentToStringSerializer list"

text \<open>
  Modelled from the spec: the "validation/serialization library's built-in
  object-to-model conversion", which is not code of the repository.
  \<^verbatim>\<open>from_orm\<close> reads the declared fields from the object and validates them: an
  \<^verbatim>\<open>int\<close> field whose attribute is \<^verbatim>\<open>None\<close> is a validation error.
\<close>

definition CommentSerializer_from_orm :: "Comment \<Rightarrow> error + CommentSerializer" where
  "CommentSerializer_from_orm c =
     (case Comment_id c of
        None \<Rightarrow> Inl (ValidationError ''id'')
      | Some i \<Rightarrow>
          (case Comment_user_id c of
             None \<Rightarrow> Inl (ValidationError ''user_id'')
           | Some u \<Rightarrow> Inr \<lparr>cs_id = i, cs_comment = Comment_comment c, cs_user_id = u\<rparr>))"

definition CommentToStringSerializer_from_orm :: "Comment \<Rightarrow> error + CommentToStringSerializer" where
  "CommentToStringSerializer_from_orm c = Inr \<lparr>cts_comment = Comment_comment c\<rparr>"

text \<open>A list field, element by element: the first element that raises ends the list.\<close>

fun map_result :: "('a \<Rightarrow> error + 'b) \<Rightarrow> 'a list \<Rightarrow> error + 'b list" where
  "map_result f [] = Inr []"
| "map_result f (x # xs) =
     (case f x of
        Inl e \<Rightarrow> Inl e
      | Inr y \<Rightarrow> (case map_result f xs of Inl e \<Rightarrow> Inl e | Inr ys \<Rightarrow> Inr (y # ys)))"

definition UserSerializer_from_orm :: "User \<Rightarrow> error + UserSerializer" where
  "UserSerializer_from_orm u =
     (case User_id u of
        None \<Rightarrow> Inl (ValidationError ''id'')
      | Some i \<Rightarrow>
          (case map_result CommentSerializer_from_orm (User_comments u) of
             Inl e \<Rightarrow> Inl e
           | Inr cs \<Rightarrow> Inr \<lparr>us_id = i, us_name = User_name u, us_comments = cs\<rparr>))"

definition UserWithoutIDSerializer_from_orm :: "User \<Rightarrow> error + UserWithoutIDSerializer" where
  "UserWithoutIDSerializer_from_orm u =
     (case map_result CommentToStringSerializer_from_orm (User_comments u) of
        Inl e \<Rightarrow> Inl e
      | Inr cs \<Rightarrow> Inr \<lparr>uw_name = User_name u, uw_comments = cs\<rparr>)"

text \<open>
  \<^verbatim>\<open>sub in s\<close> on strings: \<open>sub\<close> occurs in \<open>s\<close>.
\<close>

fun str_contains :: "string \<Rightarrow> string \<Rightarrow> bool" where
  "str_contains sub [] = (sub = [])"
| "str_contains sub (c # cs) = (take (length sub) (c # cs) = sub \<or> str_contains sub cs)"

text \<open>
  The library's \<^verbatim>\<open>dict()\<close> gives the fields by name. For a field that holds a
  nested model it calls the \<^verbatim>\<open>dict\<close> of that model, tests
  \<^verbatim>\<open>"__root__" in v\<close> on the value \<open>v\<close> it gets back, and takes
  \<^verbatim>\<open>v["__root__"]\<close> when the test holds and \<open>v\<close> otherwise. On a dictionary the
  test is for the key. On a string it is for an occurrence, and indexing a string by a
  string raises; so does the test on an integer.
\<close>

fun nested_value :: "json \<Rightarrow> error + json" where
  "nested_value (JDict d) = (case get d ''__root__'' of None \<Rightarrow> Inr (JDict d) | Some v \<Rightarrow> Inr v)"
| "nested_value (JStr s) =
     (if str_contains ''__root__'' s then Inl (TypeError ''string indices must be integers'')
      else Inr (JStr s))"
| "nested_value (JList vs) =
     (if JStr ''__root__'' \<in> set vs then Inl (TypeError ''list indices must be integers'')
      else Inr (JList vs))"
| "nested_value (JInt i) = Inl (TypeError ''argument of type int is not iterable'')"

text \<open>
  \<^verbatim>\<open>
  class CommentToStringSerializer(BaseModel):
      def dict(self, **kwargs):
          return super().dict(**kwargs).get("comment", "")
  \<close>
\<close>

definition CommentSerializer_dict :: "CommentSerializer \<Rightarrow> json" where
  "CommentSerializer_dict m =
     JDict [(''id'', JInt (cs_id m)), (''comment'', JStr (cs_comment m)),
            (''user_id'', JInt (cs_user_id m))]"

definition CommentToStringSerializer_super_dict :: "CommentToStringSerializer \<Rightarrow> json dict" where
  "CommentToStringSerializer_super_dict m = [(''comment'', JStr (cts_comment m))]"

definition CommentToStringSerializer_dict :: "CommentToStringSerializer \<Rightarrow> json" where
  "CommentToStringSerializer_dict m =
     (case get (CommentToStringSerializer_super_dict m) ''comment'' of
        None \<Rightarrow> JStr []
      | Some v \<Rightarrow> v)"

definition UserSerializer_dict :: "UserSerializer \<Rightarrow> error + json" where
  "UserSerializer_dict m =
     (case map_result (\<lambda>c. nested_value (CommentSerializer_dict c)) (us_comments m) of
        Inl e \<Rightarrow> Inl e
      | Inr vs \<Rightarrow>
          Inr (JDict [(''id'', JInt (us_id m)), (''name'', JStr (us_name m)),
                      (''comments'', JList vs)]))"

definition UserWithoutIDSerializer_dict :: "UserWithoutIDSerializer \<Rightarrow> error + json" where
  "UserWithoutIDSerializer_dict m =
     (case map_result (\<lambda>c. nested_value (CommentToStringSerializer_dict c)) (uw_comments m) of
        Inl e \<Rightarrow> Inl e
      | Inr vs \<Rightarrow> Inr (JDict [(''name'', JStr (uw_name m)), (''comments'', JList vs)]))"

text \<open>
  \<^verbatim>\<open>bare_result = UserSerializer.from_orm(user).dict()\<close> and
  \<^verbatim>\<open>tweaked_result = UserWithoutIDSerializer.from_orm(user).dict()\<close>.
\<close>

definition bare_result :: "User \<Rightarrow> error + json" where
  "bare_result user =
     (case UserSerializer_from_orm user of Inl e \<Rightarrow> Inl e | Inr m \<Rightarrow> UserSerializer_dict m)"

definition tweaked_result :: "User \<Rightarrow> error + json" where
  "tweaked_result user =
     (case UserWithoutIDSerializer_from_orm user of
        Inl e \<Rightarrow> Inl e
      | Inr m \<Rightarrow> UserWithoutIDSerializer_dict m)"

subsection \<open>The script\<close>

definition demo_user :: User where
  "demo_user = new_Comment ''Second comment.'' (new_Comment ''First comment.'' (new_User ''Alice''))"

definition demo_commit :: "User list \<times> Session" where
  "demo_commit = session_commit (session_add demo_user (Session_init create_all))"

text \<open>
  The script with the database call \<^verbatim>\<open>session.commit()\<close> as a parameter, which
  returns the objects and the session after the commit or raises. The rendering of
  \<^verbatim>\<open>json.dumps(value, indent=2)\<close> is a parameter too. After the commit,
  \<^verbatim>\<open>user\<close> is the one object that was added. Every exception ends the script
  where it is raised, before anything is printed. The script never reads its argument
  list \<open>argv\<close>.
\<close>

definition pydantic_script ::
  "(Session \<Rightarrow> error + User list \<times> Session) \<Rightarrow> (json \<Rightarrow> string) \<Rightarrow> string list
     \<Rightarrow> (error + unit) \<times> string list" where
  "pydantic_script commit_fn dumps argv =
     (case commit_fn (session_add demo_user (Session_init create_all)) of
        Inl e \<Rightarrow> (Inl e, [])
      | Inr (persisted, session) \<Rightarrow>
          (case persisted of
             [] \<Rightarrow> (Inl (LibraryError ''no object''), [])
           | user # _ \<Rightarrow>
               (case bare_result user of
                  Inl e \<Rightarrow> (Inl e, [])
                | Inr bare \<Rightarrow>
                    (case tweaked_result user of
                       Inl e \<Rightarrow> (Inl e, [])
                     | Inr tweaked \<Rightarrow>
                         (Inr (), [''bare_result = '' @ dumps bare,
                                   ''tweaked_result = '' @ dumps tweaked])))))"

text \<open>The script as a whole, with the commit as modelled above.\<close>

definition pydantic_main :: "(json \<Rightarrow> string) \<Rightarrow> string list \<Rightarrow> (error + unit) \<times> string list" where
  "pydantic_main dumps argv = pydantic_script (\<lambda>session. Inr (session_commit session)) dumps argv"

text \<open>
  The states of the session that the operations of the script can reach: objects are
  built by the two constructors, added, and committed.
\<close>

definition user_with :: "string \<Rightarrow> string list \<Rightarrow> User" where
  "user_with name texts = fold new_Comment texts (new_User name)"

inductive reachable :: "Session \<Rightarrow> bool" where
  reachable_init: "reachable (Session_init create_all)"
| reachable_add: "reachable s \<Longrightarrow> reachable (session_add (user_with name texts) s)"
| reachable_commit: "reachable s \<Longrightarrow> reachable (snd (session_commit s))"

text \<open>Every comment row names, in \<^verbatim>\<open>user_id\<close>, the key of a row of the user table.\<close>

definition referential_integrity :: "database \<Rightarrow> bool" where
  "referential_integrity db =
     list_all (\<lambda>(cid, text, uid).
                 case uid of None \<Rightarrow> False | Some u \<Rightarrow> u \<in> set (map fst (user_table db)))
       (comment_table db)"

text \<open>
  The schema declares \<^verbatim>\<open>id\<close> as the primary key of both tables: no two rows of
  a table have the same key.
\<close>

definition primary_keys_unique :: "database \<Rightarrow> bool" where
  "primary_keys_unique db =
     (distinct (map fst (user_table db)) \<and> distinct (map fst (comment_table db)))"

section \<open>Properties of filter\_datasets and of the main loop\<close>

lemma filter_datasets_no_match:
  "flt \<notin> set (map fst ds) \<Longrightarrow> filter_datasets ds flt w = (Inr [], w)"
  by (induction ds) auto

lemma filter_datasets_first_match:
  "flt \<notin> set (map fst pre) \<Longrightarrow> filter_datasets (pre @ (flt, lf) # post) flt w = lf w"
  by (induction pre) auto

lemma filter_datasets_find:
  "filter_datasets ds flt w =
     (case find (\<lambda>item. fst item = flt) ds of None \<Rightarrow> (Inr [], w) | Some item \<Rightarrow> snd item w)"
  by (induction ds) auto

lemma filter_datasets_only_item:
  assumes "(key, lf) \<in> set ds" and "\<And>lf'. (key, lf') \<in> set ds \<Longrightarrow> lf' = lf"
  shows "filter_datasets ds key w = lf w"
  using assms
proof (induction ds)
  case Nil
  then show ?case by simp
next
  case (Cons item ds)
  obtain k f where item: "item = (k, f)" by (cases item)
  show ?case
  proof (cases "k = key")
    case True
    have "(key, f) \<in> set (item # ds)" by (simp add: item True)
    then have "f = lf" by (rule Cons.prems(2))
    then show ?thesis by (simp add: item True)
  next
    case False
    have m: "(key, lf) \<in> set ds" using Cons.prems(1) False by (simp add: item)
    have u: "lf' = lf" if "(key, lf') \<in> set ds" for lf'
      using Cons.prems(2) [of lf'] that by simp
    have "filter_datasets ds key w = lf w" using m u by (rule Cons.IH)
    then show ?thesis using False by (simp add: item)
  qed
qed

lemma sorted_temporary_directory:
  "sort_key fst temporary_directory =
     [(''flavien'', [(''is'', ''I am the boss...of JIRA!'')]),
      (''florian'', [(''is'', ''He is the boss!'')]),
      (''julien'', [(''is'', ''He is my boss...Oh, wait, no it's Aymeric now!'')])]"
  by code_simp

lemma temporary_directory_not_empty: "temporary_directory \<noteq> []"
  by (simp add: temporary_directory_def save_def)

lemma loaded_partitioned_dataset_items:
  "loaded_partitioned_dataset =
     Inr [(''flavien'', read_partition [(''is'', ''I am the boss...of JIRA!'')]),
          (''florian'', read_partition [(''is'', ''He is the boss!'')]),
          (''julien'', read_partition [(''is'', ''He is my boss...Oh, wait, no it's Aymeric now!'')])]"
  by (simp add: loaded_partitioned_dataset_def load_def temporary_directory_not_empty
      sorted_temporary_directory)

lemma lower_first_names:
  "lower ''Florian'' = ''florian''" "lower ''Julien'' = ''julien''" "lower ''Flavien'' = ''flavien''"
  by code_simp+

lemma main_loop_append:
  "main_loop ds (ns1 @ ns2) st =
     (case main_loop ds ns1 st of
        (Inl e, st') \<Rightarrow> (Inl e, st')
      | (Inr u, st') \<Rightarrow> main_loop ds ns2 st')"
proof (induction ns1 arbitrary: st)
  case Nil
  show ?case by (cases st) simp
next
  case (Cons n ns1)
  obtain w out where st: "st = (w, out)" by (cases st)
  show ?case
    by (simp add: st Cons.IH split: prod.splits sum.splits)
qed

lemma kedro_main_result:
  "kedro_main argv w =
     (Inr (), w,
      [''Who is Florian? He is the boss!'',
       ''Who is Julien? He is my boss...Oh, wait, no it's Aymeric now!'',
       ''Who is Flavien? I am the boss...of JIRA!''])"
  using loaded_partitioned_dataset_items [where ?'a = 'a]
  by (simp add: kedro_main_def kedro_script_def loaded_partitioned_dataset_def
      lower_first_names read_partition_def get_def print_line_def)

lemma filter_datasets_traced:
  "filter_datasets (traced i ds) flt (calls, w) =
     (fst (filter_datasets ds flt w),
      (calls @ (if flt \<in> set (map fst ds)
                then [i + length (takeWhile (\<lambda>item. fst item \<noteq> flt) ds)] else []),
       snd (filter_datasets ds flt w)))"
proof (induction ds arbitrary: i)
  case Nil
  show ?case by simp
next
  case (Cons item ds)
  obtain key f where item: "item = (key, f)" by (cases item)
  show ?case
  proof (cases "key = flt")
    case True
    then show ?thesis by (simp add: item split: prod.splits)
  next
    case False
    then show ?thesis by (simp add: item Cons.IH)
  qed
qed

lemma lower_char_not_upper: "\<not> is_upper (lower_char c)"
  by (auto simp: lower_char_def is_upper_def)

lemma kedro_script_load_error:
  "load_fn temporary_directory = Inl e \<Longrightarrow> kedro_script load_fn argv w = (Inl e, (w, []))"
  by (simp add: kedro_script_def)

lemma kedro_script_loop_error:
  assumes "load_fn temporary_directory = Inr ds"
    and "[''Florian'', ''Julien'', ''Flavien''] = ns1 @ n # ns2"
    and "main_loop ds ns1 (w, []) = (Inr (), (w1, out1))"
    and "filter_datasets ds (lower n) w1 = (Inl e, w2)"
  shows "kedro_script load_fn argv w = (Inl e, (w2, out1))"
proof -
  have "kedro_script load_fn argv w = main_loop ds (ns1 @ n # ns2) (w, [])"
    by (simp only: kedro_script_def assms(1) assms(2) sum.case)
  also have "\<dots> = main_loop ds (n # ns2) (w1, out1)"
    by (simp only: main_loop_append [of ds ns1 "n # ns2"] assms(3) prod.case sum.case)
  also have "\<dots> = (Inl e, (w2, out1))"
    by (simp add: assms(4))
  finally show ?thesis .
qed

lemma main_loop_missing:
  "lower n \<notin> set (map fst ds) \<Longrightarrow>
   main_loop ds (n # ns) (w, out) = main_loop ds ns (w, out @ [print_line n None])"
  by (simp add: filter_datasets_no_match get_def)

lemma pydantic_script_commit_error:
  "commit_fn (session_add demo_user (Session_init create_all)) = Inl e \<Longrightarrow>
   pydantic_script commit_fn dumps argv = (Inl e, [])"
  by (simp add: pydantic_script_def)

lemma pydantic_script_bare_error:
  "commit_fn (session_add demo_user (Session_init create_all)) = Inr (user # rest, session) \<Longrightarrow>
   bare_result user = Inl e \<Longrightarrow> pydantic_script commit_fn dumps argv = (Inl e, [])"
  by (simp add: pydantic_script_def)

lemma pydantic_script_tweaked_error:
  "commit_fn (session_add demo_user (Session_init create_all)) = Inr (user # rest, session) \<Longrightarrow>
   bare_result user = Inr bare \<Longrightarrow> tweaked_result user = Inl e \<Longrightarrow>
   pydantic_script commit_fn dumps argv = (Inl e, [])"
  by (simp add: pydantic_script_def)

section \<open>Properties of the other two scripts\<close>

lemma demo_commit_result:
  "demo_commit =
     ([\<lparr>User_id = Some 1, User_name = ''Alice'',
        User_comments =
          [\<lparr>Comment_id = Some 1, Comment_comment = ''First comment.'', Comment_user_id = Some 1\<rparr>,
           \<lparr>Comment_id = Some 2, Comment_comment = ''Second comment.'', Comment_user_id = Some 1\<rparr>]\<rparr>],
      \<lparr>engine = \<lparr>user_table = [(1, ''Alice'')],
                 comment_table = [(1, ''First comment.'', Some 1), (2, ''Second comment.'', Some 1)]\<rparr>,
       new_objects = []\<rparr>)"
  by (simp add: demo_commit_def session_commit_def session_add_def Session_init_def create_all_def
      demo_user_def new_Comment_def new_User_def insert_user_def next_rowid_def)

lemma root_free:
  "\<not> str_contains ''__root__'' ''First comment.''"
  "\<not> str_contains ''__root__'' ''Second comment.''"
  by code_simp+

lemma pydantic_main_result:
  "pydantic_main dumps argv =
     (Inr (),
      [''bare_result = '' @ dumps (JDict
          [(''id'', JInt 1), (''name'', JStr ''Alice''),
           (''comments'', JList
              [JDict [(''id'', JInt 1), (''comment'', JStr ''First comment.''), (''user_id'', JInt 1)],
               JDict [(''id'', JInt 2), (''comment'', JStr ''Second comment.''), (''user_id'', JInt 1)]])]),
       ''tweaked_result = '' @ dumps (JDict
          [(''name'', JStr ''Alice''),
           (''comments'', JList [JStr ''First comment.'', JStr ''Second comment.''])])])"
  using demo_commit_result
  by (simp add: pydantic_main_def pydantic_script_def demo_commit_def root_free
      bare_result_def tweaked_result_def
      UserSerializer_from_orm_def UserWithoutIDSerializer_from_orm_def
      CommentSerializer_from_orm_def CommentToStringSerializer_from_orm_def
      UserSerializer_dict_def UserWithoutIDSerializer_dict_def CommentSerializer_dict_def
      CommentToStringSerializer_dict_def CommentToStringSerializer_super_dict_def get_def)

lemma configured_server_tasks:
  "tasks configured_server =
     [(''*.md'', shell ''ablog build'', 1), (''posts/*.md'', shell ''ablog build'', 1),
      (''*.py'', shell ''ablog build'', 1), (''_static/*'', shell ''ablog build'', 1),
      (''_templates/*'', shell ''ablog build'', 1)]"
  by (simp add: configured_server_def watch_def Server_init_def)

lemma referential_integrity_iff:
  "referential_integrity db \<longleftrightarrow>
     (\<forall>row \<in> set (comment_table db). \<exists>u \<in> set (map fst (user_table db)). snd (snd row) = Some u)"
  unfolding referential_integrity_def list_all_iff
  by (intro ball_cong refl) (force split: option.splits)

lemma insert_comments_tables:
  "insert_comments uid cs db = (cs', db') \<Longrightarrow>
     user_table db' = user_table db \<and>
     (\<forall>row \<in> set (comment_table db'). row \<in> set (comment_table db) \<or> snd (snd row) = Some uid)"
proof (induction cs arbitrary: db cs' db')
  case Nil
  then show ?case by simp
next
  case (Cons c cs)
  let ?db1 = "db\<lparr>comment_table := comment_table db @
      [(next_rowid (map fst (comment_table db)), Comment_comment c, Some uid)]\<rparr>"
  obtain cs1 db1 where r: "insert_comments uid cs ?db1 = (cs1, db1)"
    by (cases "insert_comments uid cs ?db1")
  from Cons.prems r have db': "db' = db1" by (simp add: Let_def)
  from Cons.IH [OF r] show ?case by (auto simp: db')
qed

lemma insert_user_integrity:
  assumes "referential_integrity db" and "insert_user u db = (u', db')"
  shows "referential_integrity db'"
proof -
  let ?uid = "next_rowid (map fst (user_table db))"
  let ?db1 = "db\<lparr>user_table := user_table db @ [(?uid, User_name u)]\<rparr>"
  obtain cs1 db1 where r: "insert_comments ?uid (User_comments u) ?db1 = (cs1, db1)"
    by (cases "insert_comments ?uid (User_comments u) ?db1")
  from assms(2) r have db': "db' = db1" by (simp add: insert_user_def Let_def)
  from insert_comments_tables [OF r] assms(1) show ?thesis
    unfolding db' referential_integrity_iff by fastforce
qed

lemma flush_integrity:
  "referential_integrity db \<Longrightarrow> flush us db = (us', db') \<Longrightarrow> referential_integrity db'"
proof (induction us arbitrary: db us' db')
  case Nil
  then show ?case by simp
next
  case (Cons u us)
  obtain u1 db1 where i: "insert_user u db = (u1, db1)" by (cases "insert_user u db")
  obtain us2 db2 where f: "flush us db1 = (us2, db2)" by (cases "flush us db1")
  from Cons.prems(2) i f have "db' = db2" by simp
  with Cons.IH [OF insert_user_integrity [OF Cons.prems(1) i] f] show ?case by simp
qed

lemma session_commit_integrity:
  "referential_integrity (engine s) \<Longrightarrow> referential_integrity (engine (snd (session_commit s)))"
proof -
  assume a: "referential_integrity (engine s)"
  obtain us db where f: "flush (new_objects s) (engine s) = (us, db)"
    by (cases "flush (new_objects s) (engine s)")
  then have "engine (snd (session_commit s)) = db" by (simp add: session_commit_def)
  with flush_integrity [OF a f] show ?thesis by simp
qed

lemma demo_session_reachable: "reachable (snd demo_commit)"
proof -
  have "demo_user = user_with ''Alice'' [''First comment.'', ''Second comment.'']"
    by (simp add: demo_user_def user_with_def)
  then show ?thesis
    unfolding demo_commit_def
    using reachable_commit [OF reachable_add [OF reachable_init,
          of "''Alice''" "[''First comment.'', ''Second comment.'']"]]
    by simp
qed

lemma fold_max_ge: "(a::int) \<le> fold max ids a"
proof (induction ids arbitrary: a)
  case Nil
  show ?case by simp
next
  case (Cons i ids)
  have "a \<le> max i a" by simp
  also have "\<dots> \<le> fold max ids (max i a)" by (rule Cons.IH)
  finally show ?case by simp
qed

lemma fold_max_member: "(x::int) \<in> set ids \<Longrightarrow> x \<le> fold max ids a"
proof (induction ids arbitrary: a)
  case Nil
  then show ?case by simp
next
  case (Cons i ids)
  show ?case
  proof (cases "x = i")
    case True
    have "x \<le> max i a" by (simp add: True)
    also have "\<dots> \<le> fold max ids (max i a)" by (rule fold_max_ge)
    finally show ?thesis by simp
  next
    case False
    with Cons.prems have "x \<in> set ids" by simp
    then have "x \<le> fold max ids (max i a)" by (rule Cons.IH)
    then show ?thesis by simp
  qed
qed

lemma next_rowid_fresh: "next_rowid ids \<notin> set ids"
proof
  assume "next_rowid ids \<in> set ids"
  then have "next_rowid ids \<le> fold max ids 0" by (rule fold_max_member)
  then show False by (simp add: next_rowid_def)
qed

lemma insert_comments_keys:
  "insert_comments uid cs db = (cs', db') \<Longrightarrow> distinct (map fst (comment_table db)) \<Longrightarrow>
     distinct (map fst (comment_table db'))"
proof (induction cs arbitrary: db cs' db')
  case Nil
  then show ?case by simp
next
  case (Cons c cs)
  let ?cid = "next_rowid (map fst (comment_table db))"
  let ?db1 = "db\<lparr>comment_table := comment_table db @ [(?cid, Comment_comment c, Some uid)]\<rparr>"
  obtain cs1 db1 where r: "insert_comments uid cs ?db1 = (cs1, db1)"
    by (cases "insert_comments uid cs ?db1")
  from Cons.prems(1) r have db': "db' = db1" by (simp add: Let_def)
  have "?cid \<notin> set (map fst (comment_table db))" by (rule next_rowid_fresh)
  with Cons.prems(2) have "distinct (map fst (comment_table ?db1))" by simp
  with r have "distinct (map fst (comment_table db1))" by (rule Cons.IH)
  then show ?case by (simp add: db')
qed

lemma insert_user_keys:
  assumes "primary_keys_unique db" and "insert_user u db = (u', db')"
  shows "primary_keys_unique db'"
proof -
  let ?uid = "next_rowid (map fst (user_table db))"
  let ?db1 = "db\<lparr>user_table := user_table db @ [(?uid, User_name u)]\<rparr>"
  obtain cs1 db1 where r: "insert_comments ?uid (User_comments u) ?db1 = (cs1, db1)"
    by (cases "insert_comments ?uid (User_comments u) ?db1")
  from assms(2) r have db': "db' = db1" by (simp add: insert_user_def Let_def)
  have f: "?uid \<notin> set (map fst (user_table db))" by (rule next_rowid_fresh)
  from assms(1) have "distinct (map fst (comment_table ?db1))"
    by (simp add: primary_keys_unique_def)
  with r have c: "distinct (map fst (comment_table db1))" by (rule insert_comments_keys)
  from insert_comments_tables [OF r] have "user_table db1 = user_table ?db1" by simp
  with assms(1) f have "distinct (map fst (user_table db1))"
    by (simp add: primary_keys_unique_def)
  with c show ?thesis by (simp add: db' primary_keys_unique_def)
qed

lemma flush_keys:
  "primary_keys_unique db \<Longrightarrow> flush us db = (us', db') \<Longrightarrow> primary_keys_unique db'"
proof (induction us arbitrary: db us' db')
  case Nil
  then show ?case by simp
next
  case (Cons u us)
  obtain u1 db1 where i: "insert_user u db = (u1, db1)" by (cases "insert_user u db")
  obtain us2 db2 where f: "flush us db1 = (us2, db2)" by (cases "flush us db1")
  from Cons.prems(2) i f have "db' = db2" by simp
  with Cons.IH [OF insert_user_keys [OF Cons.prems(1) i] f] show ?case by simp
qed

lemma session_commit_keys:
  "primary_keys_unique (engine s) \<Longrightarrow> primary_keys_unique (engine (snd (session_commit s)))"
proof -
  assume a: "primary_keys_unique (engine s)"
  obtain us db where f: "flush (new_objects s) (engine s) = (us, db)"
    by (cases "flush (new_objects s) (engine s)")
  then have "engine (snd (session_commit s)) = db" by (simp add: session_commit_def)
  with flush_keys [OF a f] show ?thesis by simp
qed

lemma map_result_map: "map_result f (map g xs) = map_result (\<lambda>x. f (g x)) xs"
  by (induction xs) (simp_all split: sum.splits)

lemma map_result_from_orm_CommentToString:
  "map_result CommentToStringSerializer_from_orm cs
     = Inr (map (\<lambda>c. \<lparr>cts_comment = Comment_comment c\<rparr>) cs)"
  by (induction cs) (simp_all add: CommentToStringSerializer_from_orm_def)

lemma tweaked_result_by_texts:
  "tweaked_result u =
     (case map_result (\<lambda>text. nested_value (JStr text)) (map Comment_comment (User_comments u)) of
        Inl e \<Rightarrow> Inl e
      | Inr vs \<Rightarrow> Inr (JDict [(''name'', JStr (User_name u)), (''comments'', JList vs)]))"
  by (simp add: tweaked_result_def UserWithoutIDSerializer_from_orm_def
      map_result_from_orm_CommentToString UserWithoutIDSerializer_dict_def
      CommentToStringSerializer_dict_def CommentToStringSerializer_super_dict_def get_def
      map_result_map cong: if_cong sum.case_cong)

lemma tweaked_result_independent_of_ids:
  "User_name u1 = User_name u2 \<Longrightarrow>
   map Comment_comment (User_comments u1) = map Comment_comment (User_comments u2) \<Longrightarrow>
   tweaked_result u1 = tweaked_result u2"
  by (simp only: tweaked_result_by_texts)

lemma map_result_root_free:
  "\<forall>text \<in> set texts. \<not> str_contains ''__root__'' text \<Longrightarrow>
   map_result (\<lambda>text. nested_value (JStr text)) texts = Inr (map JStr texts)"
  by (induction texts) simp_all

lemma tweaked_result_root_free:
  assumes "\<forall>c \<in> set (User_comments u). \<not> str_contains ''__root__'' (Comment_comment c)"
  shows "tweaked_result u =
     Inr (JDict [(''name'', JStr (User_name u)),
                 (''comments'', JList (map JStr (map Comment_comment (User_comments u))))])"
proof -
  from assms
  have "\<forall>text \<in> set (map Comment_comment (User_comments u)). \<not> str_contains ''__root__'' text"
    by simp
  then have "map_result (\<lambda>text. nested_value (JStr text)) (map Comment_comment (User_comments u))
      = Inr (map JStr (map Comment_comment (User_comments u)))"
    by (rule map_result_root_free)
  then show ?thesis by (simp only: tweaked_result_by_texts sum.case)
qed

section \<open>The claims\<close>

text \<open>
  C1. For every loaded dataset that holds exactly the three saved partitions, whatever
  the order of its items: with one of the three partition names as the filter,
  \<^verbatim>\<open>filter_datasets\<close> returns the payload saved for it; with any other filter it
  returns the empty dictionary. The dataset that the script loads is such a dataset.
\<close>

theorem filter_datasets_demo:
  "(set ds = {(''florian'', read_partition [(''is'', ''He is the boss!'')]),
              (''flavien'', read_partition [(''is'', ''I am the boss...of JIRA!'')]),
              (''julien'', read_partition [(''is'', ''He is my boss...Oh, wait, no it's Aymeric now!'')])} \<longrightarrow>
      filter_datasets ds ''florian'' (w::'w) = (Inr [(''is'', ''He is the boss!'')], w) \<and>
      filter_datasets ds ''flavien'' w = (Inr [(''is'', ''I am the boss...of JIRA!'')], w) \<and>
      filter_datasets ds ''julien'' w
        = (Inr [(''is'', ''He is my boss...Oh, wait, no it's Aymeric now!'')], w) \<and>
      (flt \<notin> {''florian'', ''flavien'', ''julien''} \<longrightarrow> filter_datasets ds flt w = (Inr [], w))) \<and>
   (\<exists>loaded :: (string \<times> ('w, payload) callable) list.
      loaded_partitioned_dataset = Inr loaded \<and> length loaded = 3 \<and>
      set loaded = {(''florian'', read_partition [(''is'', ''He is the boss!'')]),
                    (''flavien'', read_partition [(''is'', ''I am the boss...of JIRA!'')]),
                    (''julien'', read_partition [(''is'', ''He is my boss...Oh, wait, no it's Aymeric now!'')])})"
proof -
  let ?r1 = "read_partition [(''is'', ''He is the boss!'')] :: ('w, payload) callable"
  let ?r2 = "read_partition [(''is'', ''I am the boss...of JIRA!'')] :: ('w, payload) callable"
  let ?r3 = "read_partition [(''is'', ''He is my boss...Oh, wait, no it's Aymeric now!'')]
               :: ('w, payload) callable"
  let ?items = "{(''florian'', ?r1), (''flavien'', ?r2), (''julien'', ?r3)}"
  have a1: "filter_datasets ds ''florian'' w = ?r1 w" if s: "set ds = ?items"
  proof (rule filter_datasets_only_item)
    show "(''florian'', ?r1) \<in> set ds" by (simp add: s)
    fix lf' assume "(''florian'', lf') \<in> set ds"
    then have "(''florian'', lf') \<in> ?items" by (simp only: s)
    then show "lf' = ?r1" by simp
  qed
  have a2: "filter_datasets ds ''flavien'' w = ?r2 w" if s: "set ds = ?items"
  proof (rule filter_datasets_only_item)
    show "(''flavien'', ?r2) \<in> set ds" by (simp add: s)
    fix lf' assume "(''flavien'', lf') \<in> set ds"
    then have "(''flavien'', lf') \<in> ?items" by (simp only: s)
    then show "lf' = ?r2" by simp
  qed
  have a3: "filter_datasets ds ''julien'' w = ?r3 w" if s: "set ds = ?items"
  proof (rule filter_datasets_only_item)
    show "(''julien'', ?r3) \<in> set ds" by (simp add: s)
    fix lf' assume "(''julien'', lf') \<in> set ds"
    then have "(''julien'', lf') \<in> ?items" by (simp only: s)
    then show "lf' = ?r3" by simp
  qed
  have b: "filter_datasets ds flt w = (Inr [], w)"
    if s: "set ds = ?items" and n: "flt \<notin> {''florian'', ''flavien'', ''julien''}"
  proof (rule filter_datasets_no_match)
    have "set (map fst ds) = fst ` ?items" by (simp only: set_map s)
    then have "set (map fst ds) = {''florian'', ''flavien'', ''julien''}" by simp
    with n show "flt \<notin> set (map fst ds)" by simp
  qed
  have c: "\<exists>loaded :: (string \<times> ('w, payload) callable) list.
      loaded_partitioned_dataset = Inr loaded \<and> length loaded = 3 \<and> set loaded = ?items"
  proof (intro exI conjI)
    show "loaded_partitioned_dataset = Inr [(''flavien'', ?r2), (''florian'', ?r1), (''julien'', ?r3)]"
      by (rule loaded_partitioned_dataset_items)
    show "length [(''flavien'', ?r2), (''florian'', ?r1), (''julien'', ?r3)] = 3" by simp
    show "set [(''flavien'', ?r2), (''florian'', ?r1), (''julien'', ?r3)] = ?items"
      by (simp add: insert_commute)
  qed
  have d: "?r1 w = (Inr [(''is'', ''He is the boss!'')], w)"
    "?r2 w = (Inr [(''is'', ''I am the boss...of JIRA!'')], w)"
    "?r3 w = (Inr [(''is'', ''He is my boss...Oh, wait, no it's Aymeric now!'')], w)"
    by (simp_all add: read_partition_def)
  show ?thesis
  proof (intro conjI impI)
    assume s: "set ds = ?items"
    show "filter_datasets ds ''florian'' w = (Inr [(''is'', ''He is the boss!'')], w)"
      using a1 [OF s] d(1) by (simp only:)
    show "filter_datasets ds ''flavien'' w = (Inr [(''is'', ''I am the boss...of JIRA!'')], w)"
      using a2 [OF s] d(2) by (simp only:)
    show "filter_datasets ds ''julien'' w
        = (Inr [(''is'', ''He is my boss...Oh, wait, no it's Aymeric now!'')], w)"
      using a3 [OF s] d(3) by (simp only:)
    assume "flt \<notin> {''florian'', ''flavien'', ''julien''}"
    with s show "filter_datasets ds flt w = (Inr [], w)" by (rule b)
  next
    show "\<exists>loaded :: (string \<times> ('w, payload) callable) list.
      loaded_partitioned_dataset = Inr loaded \<and> length loaded = 3 \<and> set loaded = ?items"
      by (rule c)
  qed
qed

theorem filter_datasets_demo_witness:
  "filter_datasets
     [(''flavien'', read_partition [(''is'', ''I am the boss...of JIRA!'')]),
      (''florian'', read_partition [(''is'', ''He is the boss!'')]),
      (''julien'', read_partition [(''is'', ''He is my boss...Oh, wait, no it's Aymeric now!'')])]
     ''florian'' () = (Inr [(''is'', ''He is the boss!'')], ()) \<and>
   filter_datasets
     [(''flavien'', read_partition [(''is'', ''I am the boss...of JIRA!'')]),
      (''florian'', read_partition [(''is'', ''He is the boss!'')]),
      (''julien'', read_partition [(''is'', ''He is my boss...Oh, wait, no it's Aymeric now!'')])]
     ''Florian'' () = (Inr [], ())"
proof -
  let ?ds = "[(''flavien'', read_partition [(''is'', ''I am the boss...of JIRA!'')]),
      (''florian'', read_partition [(''is'', ''He is the boss!'')]),
      (''julien'', read_partition [(''is'', ''He is my boss...Oh, wait, no it's Aymeric now!'')])]
      :: (string \<times> (unit, payload) callable) list"
  have s: "set ?ds = {(''florian'', read_partition [(''is'', ''He is the boss!'')]),
              (''flavien'', read_partition [(''is'', ''I am the boss...of JIRA!'')]),
              (''julien'', read_partition [(''is'', ''He is my boss...Oh, wait, no it's Aymeric now!'')])}"
    by (simp add: insert_commute)
  have n: "''Florian'' \<notin> {''florian'', ''flavien'', ''julien''}" by simp
  from filter_datasets_demo [of ?ds "()" "''Florian''", THEN conjunct1, THEN mp, OF s]
  have "filter_datasets ?ds ''florian'' () = (Inr [(''is'', ''He is the boss!'')], ())"
    and "''Florian'' \<notin> {''florian'', ''flavien'', ''julien''} \<longrightarrow>
           filter_datasets ?ds ''Florian'' () = (Inr [], ())"
    by blast+
  with n show ?thesis by blast
qed

text \<open>
  C2, as the code has it. No script catches an exception, so an error raised by a call
  that a script makes ends the script there. In the partitioned-dataset script, an error
  of \<^verbatim>\<open>load\<close> ends it before the loop, and an error of a partition load function
  comes out of \<^verbatim>\<open>filter_datasets\<close> unchanged and ends the loop and the script at
  that name, with the lines printed before it and nothing after. In the serializer
  script, an error of the database call \<^verbatim>\<open>session.commit()\<close>, a validation error
  of \<^verbatim>\<open>from_orm\<close> and an error of \<^verbatim>\<open>dict()\<close> each end the script before
  anything is printed. In the launcher, an error of \<^verbatim>\<open>serve\<close> is the error of the
  script. A lookup with a missing key is not such a failure: for a filter that is no key
  \<^verbatim>\<open>filter_datasets\<close> returns the empty dictionary, \<^verbatim>\<open>.get("is")\<close> gives
  \<^verbatim>\<open>None\<close>, and the loop prints it and goes on.
\<close>

theorem errors_propagate:
  "(load_fn temporary_directory = Inl e1 \<longrightarrow> kedro_script load_fn argv w = (Inl e1, (w, []))) \<and>
   (load_fn2 temporary_directory = Inr ds \<and>
    [''Florian'', ''Julien'', ''Flavien''] = ns1 @ n # ns2 \<and>
    main_loop ds ns1 (w, []) = (Inr (), (w1, out1)) \<and>
    filter_datasets ds (lower n) w1 = (Inl e2, w2) \<longrightarrow>
      kedro_script load_fn2 argv w = (Inl e2, (w2, out1))) \<and>
   (flt \<notin> set (map fst pre) \<and> lf w = (Inl e3, w3) \<longrightarrow>
      filter_datasets (pre @ (flt, lf) # post) flt w = (Inl e3, w3)) \<and>
   (commit_fn (session_add demo_user (Session_init create_all)) = Inl e4 \<longrightarrow>
      pydantic_script commit_fn dumps argv = (Inl e4, [])) \<and>
   (commit_fn2 (session_add demo_user (Session_init create_all)) = Inr (user2 # rest2, session2) \<and>
    bare_result user2 = Inl e5 \<longrightarrow>
      pydantic_script commit_fn2 dumps argv = (Inl e5, [])) \<and>
   (commit_fn3 (session_add demo_user (Session_init create_all)) = Inr (user3 # rest3, session3) \<and>
    bare_result user3 = Inr bare \<and> tweaked_result user3 = Inl e6 \<longrightarrow>
      pydantic_script commit_fn3 dumps argv = (Inl e6, [])) \<and>
   (serve configured_server ''docs/'' = Some (Inl e7) \<longrightarrow>
      live_reload_main serve argv = Some (Inl e7)) \<and>
   (lower n' \<notin> set (map fst ds') \<longrightarrow>
      filter_datasets ds' (lower n') w = (Inr [], w) \<and>
      main_loop ds' (n' # ns') (w, out) = main_loop ds' ns' (w, out @ [print_line n' None]))"
proof (intro conjI impI)
  show "kedro_script load_fn argv w = (Inl e1, (w, []))" if "load_fn temporary_directory = Inl e1"
    using that by (rule kedro_script_load_error)
  show "kedro_script load_fn2 argv w = (Inl e2, (w2, out1))"
    if "load_fn2 temporary_directory = Inr ds \<and>
        [''Florian'', ''Julien'', ''Flavien''] = ns1 @ n # ns2 \<and>
        main_loop ds ns1 (w, []) = (Inr (), (w1, out1)) \<and>
        filter_datasets ds (lower n) w1 = (Inl e2, w2)"
    using that by (blast intro: kedro_script_loop_error)
  show "filter_datasets (pre @ (flt, lf) # post) flt w = (Inl e3, w3)"
    if "flt \<notin> set (map fst pre) \<and> lf w = (Inl e3, w3)"
    using that by (simp add: filter_datasets_first_match)
  show "pydantic_script commit_fn dumps argv = (Inl e4, [])"
    if "commit_fn (session_add demo_user (Session_init create_all)) = Inl e4"
    using that by (rule pydantic_script_commit_error)
  show "pydantic_script commit_fn2 dumps argv = (Inl e5, [])"
    if "commit_fn2 (session_add demo_user (Session_init create_all)) = Inr (user2 # rest2, session2) \<and>
        bare_result user2 = Inl e5"
    using that by (blast intro: pydantic_script_bare_error)
  show "pydantic_script commit_fn3 dumps argv = (Inl e6, [])"
    if "commit_fn3 (session_add demo_user (Session_init create_all)) = Inr (user3 # rest3, session3) \<and>
        bare_result user3 = Inr bare \<and> tweaked_result user3 = Inl e6"
    using that by (blast intro: pydantic_script_tweaked_error)
  show "live_reload_main serve argv = Some (Inl e7)"
    if "serve configured_server ''docs/'' = Some (Inl e7)"
    using that by (simp add: live_reload_main_def)
  show "filter_datasets ds' (lower n') w = (Inr [], w)" if "lower n' \<notin> set (map fst ds')"
    using that by (rule filter_datasets_no_match)
  show "main_loop ds' (n' # ns') (w, out) = main_loop ds' ns' (w, out @ [print_line n' None])"
    if "lower n' \<notin> set (map fst ds')"
    using that by (rule main_loop_missing)
qed

theorem errors_propagate_witness:
  "kedro_script (\<lambda>dir. Inl (LibraryError ''DatasetError'')) [] (0::nat)
     = (Inl (LibraryError ''DatasetError''), (0, [])) \<and>
   kedro_script (\<lambda>dir. Inr [(''julien'', \<lambda>w. (Inl (LibraryError ''IOError''), Suc w))]) [] 0
     = (Inl (LibraryError ''IOError''), (Suc 0, [''Who is Florian? None''])) \<and>
   filter_datasets ([(''a'', read_partition [])] @
       (''b'', \<lambda>w. (Inl (LibraryError ''IOError''), Suc w)) # []) ''b'' 0
     = (Inl (LibraryError ''IOError'') :: error + payload, Suc 0) \<and>
   pydantic_script (\<lambda>session. Inl (LibraryError ''OperationalError'')) (\<lambda>j. []) []
     = (Inl (LibraryError ''OperationalError''), []) \<and>
   pydantic_script (\<lambda>session. Inr ([demo_user], session)) (\<lambda>j. []) []
     = (Inl (ValidationError ''id''), []) \<and>
   pydantic_script
     (\<lambda>session. Inr ([\<lparr>User_id = Some 1, User_name = ''Alice'', User_comments =
         [\<lparr>Comment_id = Some 1, Comment_comment = ''__root__'', Comment_user_id = Some 1\<rparr>]\<rparr>],
        session)) (\<lambda>j. []) []
     = (Inl (TypeError ''string indices must be integers''), []) \<and>
   live_reload_main (\<lambda>server root. Some (Inl (LibraryError ''OSError''))) []
     = Some (Inl (LibraryError ''OSError'')) \<and>
   main_loop [(''b'', read_partition [])] [''C''] (0::nat, [])
     = main_loop [(''b'', read_partition [])] [] (0, [''Who is C? None''])"
proof -
  let ?fail = "\<lambda>w. (Inl (LibraryError ''IOError'') :: error + payload, Suc w)"
  let ?root = "\<lparr>User_id = Some 1, User_name = ''Alice'', User_comments =
         [\<lparr>Comment_id = Some 1, Comment_comment = ''__root__'', Comment_user_id = Some 1\<rparr>]\<rparr>"
  let ?bare = "JDict [(''id'', JInt 1), (''name'', JStr ''Alice''),
      (''comments'', JList [JDict [(''id'', JInt 1), (''comment'', JStr ''__root__''),
                                   (''user_id'', JInt 1)]])]"
  have l: "lower ''Florian'' = ''florian''" "lower ''Julien'' = ''julien''" "lower ''C'' = ''c''"
    by code_simp+
  have c: "str_contains ''__root__'' ''__root__''" by code_simp
  have h2: "main_loop [(''julien'', ?fail)] [''Florian''] (0, []) = (Inr (), (0, [''Who is Florian? None'']))"
    by (simp add: l get_def print_line_def)
  have h5: "bare_result demo_user = Inl (ValidationError ''id'')"
    by (simp add: bare_result_def UserSerializer_from_orm_def demo_user_def new_Comment_def
        new_User_def)
  have hb: "bare_result ?root = Inr ?bare"
    by (simp add: bare_result_def UserSerializer_from_orm_def CommentSerializer_from_orm_def
        UserSerializer_dict_def CommentSerializer_dict_def get_def)
  have ht: "tweaked_result ?root = Inl (TypeError ''string indices must be integers'')"
    by (simp add: tweaked_result_def UserWithoutIDSerializer_from_orm_def
        CommentToStringSerializer_from_orm_def UserWithoutIDSerializer_dict_def
        CommentToStringSerializer_dict_def CommentToStringSerializer_super_dict_def get_def c)
  have p: "print_line ''C'' None = ''Who is C? None''" by (simp add: print_line_def)
  note t = errors_propagate [where load_fn = "\<lambda>dir. Inl (LibraryError ''DatasetError'')"
      and ?e1.0 = "LibraryError ''DatasetError''" and argv = "[]" and w = "0::nat"
      and ?load_fn2.0 = "\<lambda>dir. Inr [(''julien'', ?fail)]" and ds = "[(''julien'', ?fail)]"
      and ?ns1.0 = "[''Florian'']" and n = "''Julien''" and ?ns2.0 = "[''Flavien'']"
      and ?w1.0 = 0 and ?out1.0 = "[''Who is Florian? None'']"
      and ?e2.0 = "LibraryError ''IOError''" and ?w2.0 = "Suc 0"
      and flt = "''b''" and pre = "[(''a'', read_partition [])]" and lf = ?fail
      and ?e3.0 = "LibraryError ''IOError''" and ?w3.0 = "Suc 0" and post = "[]"
      and commit_fn = "\<lambda>session. Inl (LibraryError ''OperationalError'')"
      and ?e4.0 = "LibraryError ''OperationalError''" and dumps = "\<lambda>j. []"
      and ?commit_fn2.0 = "\<lambda>session. Inr ([demo_user], session)" and ?user2.0 = demo_user
      and ?rest2.0 = "[]" and ?session2.0 = "session_add demo_user (Session_init create_all)"
      and ?e5.0 = "ValidationError ''id''"
      and ?commit_fn3.0 = "\<lambda>session. Inr ([?root], session)" and ?user3.0 = ?root
      and ?rest3.0 = "[]" and ?session3.0 = "session_add demo_user (Session_init create_all)"
      and bare = ?bare and ?e6.0 = "TypeError ''string indices must be integers''"
      and serve = "\<lambda>server root. Some (Inl (LibraryError ''OSError''))"
      and ?e7.0 = "LibraryError ''OSError''"
      and ds' = "[(''b'', read_partition [])]" and n' = "''C''" and ns' = "[]" and out = "[]"]
  show ?thesis
    using t h2 h5 hb ht by (simp add: l p)
qed

text \<open>
  C2 as stated fails: the lookup of the missing key \<^verbatim>\<open>bob\<close> in the loaded dataset
  raises nothing. It returns the empty dictionary, \<^verbatim>\<open>.get("is")\<close> on it returns
  \<^verbatim>\<open>None\<close>, and the loop run on the one name Bob ends normally after printing that.
\<close>

theorem missing_key_is_no_failure:
  "loaded_partitioned_dataset =
     Inr [(''flavien'', read_partition [(''is'', ''I am the boss...of JIRA!'')]),
          (''florian'', read_partition [(''is'', ''He is the boss!'')]),
          (''julien'', read_partition [(''is'', ''He is my boss...Oh, wait, no it's Aymeric now!'')])] \<and>
   filter_datasets
     [(''flavien'', read_partition [(''is'', ''I am the boss...of JIRA!'')]),
      (''florian'', read_partition [(''is'', ''He is the boss!'')]),
      (''julien'', read_partition [(''is'', ''He is my boss...Oh, wait, no it's Aymeric now!'')])]
     ''bob'' () = (Inr [], ()) \<and>
   get ([] :: payload) ''is'' = None \<and>
   main_loop
     [(''flavien'', read_partition [(''is'', ''I am the boss...of JIRA!'')]),
      (''florian'', read_partition [(''is'', ''He is the boss!'')]),
      (''julien'', read_partition [(''is'', ''He is my boss...Oh, wait, no it's Aymeric now!'')])]
     [''Bob''] ((), []) = (Inr (), ((), [''Who is Bob? None'']))"
proof -
  have l: "lower ''Bob'' = ''bob''" by code_simp
  show ?thesis
    by (simp add: l loaded_partitioned_dataset_items get_def print_line_def)
qed

text \<open>
  C3, as the code has it. The two demo scripts run to their end and return normally:
  the partitioned-dataset script after printing its three lines, the serializer script
  after printing its two results. The launcher configures the server and then calls the
  library's \<^verbatim>\<open>serve\<close>: it returns exactly when, and as, that call returns.
\<close>

theorem scripts_run_to_their_end:
  "kedro_main argv w =
     (Inr (), w,
      [''Who is Florian? He is the boss!'',
       ''Who is Julien? He is my boss...Oh, wait, no it's Aymeric now!'',
       ''Who is Flavien? I am the boss...of JIRA!'']) \<and>
   fst (pydantic_main dumps argv) = Inr () \<and>
   length (snd (pydantic_main dumps argv)) = 2 \<and>
   live_reload_main serve argv = serve configured_server ''docs/''"
  by (simp add: kedro_main_result pydantic_main_result live_reload_main_def)

text \<open>
  C3 as stated fails for the launcher: with a server that keeps serving, the script
  does not return.
\<close>

theorem live_reload_serve_may_block:
  "live_reload_main blocking_serve [] = None"
  by (simp add: live_reload_main_def blocking_serve_def)

text \<open>
  C4. The launcher registers watches on exactly the five path patterns, each with the
  shell command \<^verbatim>\<open>ablog build\<close> and delay 1, and then serves the directory
  \<^verbatim>\<open>docs/\<close>.
\<close>

theorem live_reload_configuration:
  "live_reload_main serve argv = serve configured_server ''docs/'' \<and>
   map fst (tasks configured_server)
     = [''*.md'', ''posts/*.md'', ''*.py'', ''_static/*'', ''_templates/*''] \<and>
   map snd (tasks configured_server) = replicate 5 (shell ''ablog build'', 1)"
  by (simp add: live_reload_main_def configured_server_tasks numeral_eq_Suc)

text \<open>
  C5. The declared schema has exactly two tables. Beside its primary key, the parent
  (User) has the single column \<^verbatim>\<open>name\<close>, which is not nullable. The dependent
  (Comment) has a text column that is not nullable and a column \<^verbatim>\<open>user_id\<close> with a
  foreign key to the primary key \<^verbatim>\<open>id\<close> of the parent's table. The two
  relationships name each other.
\<close>

theorem declared_schema:
  "map tablename Base_metadata = [''user'', ''comment''] \<and>
   map class_name Base_metadata = [''User'', ''Comment''] \<and>
   columns User_class =
     [(''id'', \<lparr>col_type = Integer, foreign_key = None, primary_key = True, nullable = False\<rparr>),
      (''name'', \<lparr>col_type = Text, foreign_key = None, primary_key = False, nullable = False\<rparr>)] \<and>
   columns Comment_class =
     [(''id'', \<lparr>col_type = Integer, foreign_key = None, primary_key = True, nullable = False\<rparr>),
      (''comment'', \<lparr>col_type = Text, foreign_key = None, primary_key = False, nullable = False\<rparr>),
      (''user_id'', \<lparr>col_type = Integer, foreign_key = Some (tablename User_class @ ''.id''),
                     primary_key = False, nullable = True\<rparr>)] \<and>
   relationships User_class
     = [(''comments'', \<lparr>argument = class_name Comment_class, back_populates = ''user''\<rparr>)] \<and>
   relationships Comment_class
     = [(''user'', \<lparr>argument = class_name User_class, back_populates = ''comments''\<rparr>)]"
  by (simp add: Base_metadata_def User_class_def Comment_class_def Column_def relationship_def)

text \<open>
  C6, as the code has it. In every state that the operations of the script can reach
  (objects built by the two constructors, added to the session and committed),
  referential integrity holds: the \<^verbatim>\<open>user_id\<close> of every comment row is the key of
  a user row. It is not the only invariant: the primary keys that the schema declares
  are unique in every such state too. In the run of the script both comment rows name
  the one user row. The schema by itself does not force a comment to name a user: its
  column \<^verbatim>\<open>user_id\<close> is nullable.
\<close>

theorem reachable_database_invariants:
  "(reachable s \<longrightarrow>
      referential_integrity (engine s) \<and> primary_keys_unique (engine s)) \<and>
   engine (snd demo_commit) =
     \<lparr>user_table = [(1, ''Alice'')],
      comment_table = [(1, ''First comment.'', Some 1), (2, ''Second comment.'', Some 1)]\<rparr> \<and>
   map_of (columns Comment_class) ''user_id'' =
     Some \<lparr>col_type = Integer, foreign_key = Some ''user.id'', primary_key = False,
           nullable = True\<rparr>"
proof -
  have "referential_integrity (engine s) \<and> primary_keys_unique (engine s)" if "reachable s"
    using that
  proof induction
    case reachable_init
    show ?case
      by (simp add: referential_integrity_def primary_keys_unique_def Session_init_def
          create_all_def)
  next
    case (reachable_add s name texts)
    then show ?case by (simp add: session_add_def)
  next
    case (reachable_commit s)
    from reachable_commit.IH show ?case
      by (simp add: session_commit_integrity session_commit_keys)
  qed
  then show ?thesis
    by (simp add: demo_commit_result Comment_class_def Column_def)
qed

theorem reachable_database_invariants_witness:
  "reachable (snd demo_commit) \<and> referential_integrity (engine (snd demo_commit)) \<and>
   primary_keys_unique (engine (snd demo_commit))"
  using reachable_database_invariants [of "snd demo_commit", THEN conjunct1, THEN mp,
      OF demo_session_reachable] demo_session_reachable
  by simp

text \<open>
  C6 as stated fails: referential integrity is not the sole invariant of the schema.
  The schema declares \<^verbatim>\<open>id\<close> as primary key, and a database with two user rows
  of the same key and no comment has referential integrity, but not unique keys.
\<close>

theorem referential_integrity_not_the_sole_invariant:
  "map_of (columns User_class) ''id'' =
     Some \<lparr>col_type = Integer, foreign_key = None, primary_key = True, nullable = False\<rparr> \<and>
   referential_integrity \<lparr>user_table = [(1, ''Alice''), (1, ''Bob'')], comment_table = []\<rparr> \<and>
   \<not> primary_keys_unique \<lparr>user_table = [(1, ''Alice''), (1, ''Bob'')], comment_table = []\<rparr>"
  by (simp add: User_class_def Column_def referential_integrity_def primary_keys_unique_def)

text \<open>
  C8. For every mapping and every filter, \<^verbatim>\<open>filter_datasets\<close> calls the load
  function of at most one item: the first one, in iteration order, whose key equals the
  filter. The list of calls grows by the position of that item, or not at all when no
  key matches; the result and the world are those of that one call, whatever the other
  items are, later items with an equal key among them.
\<close>

theorem filter_datasets_calls_first_match_only:
  "filter_datasets (traced 0 ds) flt (calls, w) =
     (fst (filter_datasets ds flt w),
      (calls @ (if flt \<in> set (map fst ds)
                then [length (takeWhile (\<lambda>item. fst item \<noteq> flt) ds)] else []),
       snd (filter_datasets ds flt w))) \<and>
   filter_datasets ds flt w =
     (case find (\<lambda>item. fst item = flt) ds of
        None \<Rightarrow> (Inr [], w)
      | Some item \<Rightarrow> snd item w)"
  using filter_datasets_traced [of 0 ds flt calls w] filter_datasets_find [of ds flt w] by simp

theorem filter_datasets_calls_first_match_only_witness:
  "filter_datasets (traced 0 [(''a'', read_partition [(''k'', ''0'')]), (''b'', read_partition [(''k'', ''1'')]), (''b'', read_partition [(''k'', ''2'')])]) ''b'' ([], ())
  = (Inr [(''k'', ''1'')], ([1], ()))"
  using filter_datasets_calls_first_match_only[of "[(''a'', read_partition [(''k'', ''0'')]), (''b'', read_partition [(''k'', ''1'')]), (''b'', read_partition [(''k'', ''2'')])]" "''b''" "[]" "()"]
  by (simp add: read_partition_def)

text \<open>
  C9. Keys are compared by equality of strings, case included: when no key holds an
  uppercase letter and the filter holds one, the result is the empty dictionary. The
  main loop passes the lowercased first name, which holds no uppercase letter.
\<close>

theorem filter_datasets_case_sensitive:
  "((\<forall>key \<in> set (map fst ds). \<forall>c \<in> set key. \<not> is_upper c) \<and> (\<exists>c \<in> set flt. is_upper c) \<longrightarrow>
      filter_datasets ds flt w = (Inr [], w)) \<and>
   (\<forall>c \<in> set (lower first_name). \<not> is_upper c) \<and>
   main_loop ds (first_name # names) (w, out) =
     (case filter_datasets ds (lower first_name) w of
        (Inl e, w') \<Rightarrow> (Inl e, (w', out))
      | (Inr d, w') \<Rightarrow> main_loop ds names (w', out @ [print_line first_name (get d ''is'')]))"
proof -
  have "filter_datasets ds flt w = (Inr [], w)"
    if "\<forall>key \<in> set (map fst ds). \<forall>c \<in> set key. \<not> is_upper c" and "\<exists>c \<in> set flt. is_upper c"
  proof -
    from that have "flt \<notin> set (map fst ds)" by blast
    then show ?thesis by (rule filter_datasets_no_match)
  qed
  moreover have "\<forall>c \<in> set (lower first_name). \<not> is_upper c"
    by (auto simp: lower_def lower_char_not_upper)
  ultimately show ?thesis by simp
qed

theorem filter_datasets_case_sensitive_witness:
  "filter_datasets
     [(''flavien'', read_partition [(''is'', ''I am the boss...of JIRA!'')]),
      (''florian'', read_partition [(''is'', ''He is the boss!'')]),
      (''julien'', read_partition [(''is'', ''He is my boss...Oh, wait, no it's Aymeric now!'')])]
     ''Florian'' () = (Inr [], ()) \<and>
   filter_datasets
     [(''flavien'', read_partition [(''is'', ''I am the boss...of JIRA!'')]),
      (''florian'', read_partition [(''is'', ''He is the boss!'')]),
      (''julien'', read_partition [(''is'', ''He is my boss...Oh, wait, no it's Aymeric now!'')])]
     (lower ''Florian'') () = (Inr [(''is'', ''He is the boss!'')], ())"
proof -
  let ?ds = "[(''flavien'', read_partition [(''is'', ''I am the boss...of JIRA!'')]),
      (''florian'', read_partition [(''is'', ''He is the boss!'')]),
      (''julien'', read_partition [(''is'', ''He is my boss...Oh, wait, no it's Aymeric now!'')])]
      :: (string \<times> (unit, payload) callable) list"
  have k: "\<forall>key \<in> set (map fst ?ds). \<forall>c \<in> set key. \<not> is_upper c"
    by (simp add: is_upper_def)
  have f: "\<exists>c \<in> set ''Florian''. is_upper c"
    by (simp add: is_upper_def)
  show ?thesis
    using filter_datasets_case_sensitive [of ?ds "''Florian''" "()"] k f
    by (simp add: lower_first_names read_partition_def)
qed

text \<open>
  C10. The script means \<^verbatim>\<open>UserWithoutIDSerializer.from_orm(user).dict()\<close> to be
  the dictionary of the name and of the list of the bare comment strings, as it is for
  the user of the script. For a user with the comment \<^verbatim>\<open>__root__\<close> the call raises
  instead: the overridden \<^verbatim>\<open>dict\<close> returns a string, and the library looks for
  \<^verbatim>\<open>"__root__"\<close> in what a nested model's \<^verbatim>\<open>dict\<close> returns.
\<close>

theorem tweaked_result_root_key_raises:
  "tweaked_result (new_Comment ''__root__'' (new_User ''Alice''))
     = Inl (TypeError ''string indices must be integers'') \<and>
   tweaked_result demo_user =
     Inr (JDict [(''name'', JStr ''Alice''),
                 (''comments'', JList [JStr ''First comment.'', JStr ''Second comment.''])])"
proof -
  have c: "str_contains ''__root__'' ''__root__''" by code_simp
  show ?thesis
    by (simp add: tweaked_result_by_texts new_Comment_def new_User_def demo_user_def c root_free)
qed

end
